theory Spec2Isabelle
  imports Main
begin

section \<open>Text\<close>

text \<open>
  Text is a list of characters, each a code point below 256 (ASCII and Latin-1); text
  with a code point beyond that is outside the model. The functions below are Python's on
  such text, with one limit: the capitals of \<open>0xB5\<close> (micro sign) and \<open>0xFF\<close> (y with
  diaeresis) are the code points \<open>0x39C\<close> and \<open>0x178\<close>, which no character here can
  hold, so \<open>str_upper\<close> leaves these two as they are and \<open>upper_fits\<close> marks the text that
  has neither. The statements that say what the uppercased codes are (C1 and C8) assume
  \<open>upper_fits\<close> of the entries they uppercase.
\<close>

definition upper_char :: "char \<Rightarrow> string" where
  \<comment> \<open>\<open>c.upper()\<close>: \<open>a\<close>..\<open>z\<close> and the Latin-1 letters \<open>0xE0\<close>..\<open>0xFE\<close> (but not the division
      sign \<open>0xF7\<close>) move down by 32, sharp s \<open>0xDF\<close> becomes \<open>SS\<close>\<close>
  "upper_char c =
     (let n = (of_char c :: nat)
      in if (97 \<le> n \<and> n \<le> 122) \<or> (224 \<le> n \<and> n \<le> 254 \<and> n \<noteq> 247) then [char_of (n - 32)]
         else if n = 223 then ''SS''
         else [c])"

definition str_upper :: "string \<Rightarrow> string" where
  \<comment> \<open>\<open>s.upper()\<close>\<close>
  "str_upper s = concat (map upper_char s)"


definition isspace :: "char \<Rightarrow> bool" where
  \<comment> \<open>\<open>str.isspace\<close> on one character: tab, line feed, vertical tab, form feed, carriage
      return, the four separators 0x1c..0x1f, space, and 0x85, 0xa0\<close>
  "isspace c = ((of_char c :: nat) \<in> {9, 10, 11, 12, 13, 28, 29, 30, 31, 32, 133, 160})"

definition str_strip :: "string \<Rightarrow> string" where
  \<comment> \<open>\<open>s.strip()\<close>\<close>
  "str_strip s = rev (dropWhile isspace (rev (dropWhile isspace s)))"

definition re_sub_punct :: "string \<Rightarrow> string" where
  \<comment> \<open>\<open>re.sub(r"[{}']", "", s)\<close>\<close>
  "re_sub_punct s = filter (\<lambda>c. c \<notin> {CHR ''{'', CHR ''}'', CHR 0x27}) s"

definition re_sub_comma :: "string \<Rightarrow> string" where
  \<comment> \<open>\<open>re.sub(r",", "\n", s)\<close>\<close>
  "re_sub_comma s = map (\<lambda>c. if c = CHR '','' then CHR 0x0A else c) s"

definition digit_char :: "nat \<Rightarrow> char" where
  "digit_char d = char_of (48 + d)"

fun str_nat :: "nat \<Rightarrow> string" where
  "str_nat n = (if n < 10 then [digit_char n] else str_nat (n div 10) @ [digit_char (n mod 10)])"

declare str_nat.simps [simp del]

definition str_int :: "int \<Rightarrow> string" where
  \<comment> \<open>\<open>str(i)\<close> for an \<open>int\<close>\<close>
  "str_int i = (if i < 0 then CHR ''-'' # str_nat (nat (- i)) else str_nat (nat i))"

definition hex_digit :: "nat \<Rightarrow> char" where
  "hex_digit d = (if d < 10 then char_of (48 + d) else char_of (87 + d))"

definition printable :: "char \<Rightarrow> bool" where
  \<comment> \<open>what \<open>repr\<close> copies unescaped: not a control character, not 0x7f..0xa0, not 0xad\<close>
  "printable c = (let n = (of_char c :: nat) in 32 \<le> n \<and> \<not> (127 \<le> n \<and> n \<le> 160) \<and> n \<noteq> 173)"

definition repr_char :: "char \<Rightarrow> char \<Rightarrow> string" where
  \<comment> \<open>one character of \<open>repr(s)\<close>, inside the quote \<open>q\<close>\<close>
  "repr_char q c =
     (if c = q \<or> c = CHR 0x5C then [CHR 0x5C, c]
      else if c = CHR 0x09 then [CHR 0x5C, CHR ''t'']
      else if c = CHR 0x0A then [CHR 0x5C, CHR ''n'']
      else if c = CHR 0x0D then [CHR 0x5C, CHR ''r'']
      else if \<not> printable c then
        [CHR 0x5C, CHR ''x'', hex_digit ((of_char c :: nat) div 16), hex_digit ((of_char c :: nat) mod 16)]
      else [c])"

definition repr_str :: "string \<Rightarrow> string" where
  \<comment> \<open>\<open>repr(s)\<close> for a \<open>str\<close>: double quotes only when \<open>s\<close> has a single quote and no
      double quote\<close>
  "repr_str s =
     (let q = (if CHR 0x27 \<in> set s \<and> CHR 0x22 \<notin> set s then CHR 0x22 else CHR 0x27)
      in q # concat (map (repr_char q) s) @ [q])"

fun join :: "string \<Rightarrow> string list \<Rightarrow> string" where
  \<comment> \<open>\<open>sep.join(xs)\<close>\<close>
  "join sep [] = []"
| "join sep [x] = x"
| "join sep (x # y # ys) = x @ sep @ join sep (y # ys)"

section \<open>Parsed JSON\<close>

text \<open>
  What \<open>Response.json()\<close> returns: \<open>None\<close>, a \<open>bool\<close>, an \<open>int\<close>, a \<open>float\<close>, a \<open>str\<close>,
  a \<open>list\<close> or a \<open>dict\<close> with \<open>str\<close> keys. A \<open>dict\<close> is the list of its items in
  insertion order. A \<open>float\<close> is carried as the text \<open>repr\<close> prints for it.
\<close>

datatype json =
    JNull
  | JBool bool
  | JInt int
  | JFloat string
  | JStr string
  | JList "json list"
  | JObj "(string \<times> json) list"

fun py_repr :: "json \<Rightarrow> string"
  and repr_list :: "json list \<Rightarrow> string list"
  and repr_items :: "(string \<times> json) list \<Rightarrow> string list" where
  "py_repr JNull = ''None''"
| "py_repr (JBool b) = (if b then ''True'' else ''False'')"
| "py_repr (JInt i) = str_int i"
| "py_repr (JFloat t) = t"
| "py_repr (JStr s) = repr_str s"
| "py_repr (JList xs) = ''['' @ join '', '' (repr_list xs) @ '']''"
| "py_repr (JObj m) = ''{'' @ join '', '' (repr_items m) @ ''}''"
| "repr_list [] = []"
| "repr_list (x # xs) = py_repr x # repr_list xs"
| "repr_items [] = []"
| "repr_items ((k, v) # m) = (repr_str k @ '': '' @ py_repr v) # repr_items m"

fun py_str :: "json \<Rightarrow> string" where
  \<comment> \<open>\<open>str(v)\<close>, which is also what an f-string field prints\<close>
  "py_str (JStr s) = s"
| "py_str v = py_repr v"

datatype fault = ConnectionError | JSONDecodeError | KeyError string | TypeError

fun subscript :: "json \<Rightarrow> string \<Rightarrow> fault + json" where
  \<comment> \<open>\<open>v[k]\<close> with a \<open>str\<close> key\<close>
  "subscript (JObj m) k = (case map_of m k of None \<Rightarrow> Inl (KeyError k) | Some v \<Rightarrow> Inr v)"
| "subscript v k = Inl TypeError"

section \<open>Configuration and network\<close>

text \<open>
  Lines 18 to 22: after \<open>load_dotenv\<close> the three secrets are read with \<open>os.getenv\<close>,
  which gives \<open>None\<close> for a variable that is not set. Nothing is checked.
\<close>

record config =
  API_KEY :: "string option"
  ADMIN :: "string option"
  PASSWORD :: "string option"

definition load_config :: "(string \<rightharpoonup> string) \<Rightarrow> config" where
  "load_config env =
     \<lparr>API_KEY = env ''API_KEY'', ADMIN = env ''ADMIN'', PASSWORD = env ''PASSWORD''\<rparr>"

fun format_opt :: "string option \<Rightarrow> string" where
  \<comment> \<open>an f-string field holding a \<open>str\<close> or \<open>None\<close>\<close>
  "format_opt None = ''None''"
| "format_opt (Some s) = s"

text \<open>
  \<open>requests.get(url)\<close> either raises (no response at all) or returns a response, whatever
  its status; \<open>response.json()\<close> raises when the body is not JSON.
\<close>

record response =
  status_code :: int
  body :: "json option"

type_synonym network = "string \<Rightarrow> response option"

definition requests_get :: "network \<Rightarrow> string \<Rightarrow> fault + response" where
  "requests_get net url = (case net url of None \<Rightarrow> Inl ConnectionError | Some r \<Rightarrow> Inr r)"

definition response_json :: "response \<Rightarrow> fault + json" where
  "response_json r = (case body r of None \<Rightarrow> Inl JSONDecodeError | Some j \<Rightarrow> Inr j)"

definition api_base :: "config \<Rightarrow> string" where
  "api_base cfg = ''https://v6.exchangerate-api.com/v6/'' @ format_opt (API_KEY cfg)"

definition latest_url :: "config \<Rightarrow> string \<Rightarrow> string" where
  "latest_url cfg from_currency = api_base cfg @ ''/latest/'' @ from_currency"

definition pair_url :: "config \<Rightarrow> string \<Rightarrow> string \<Rightarrow> string \<Rightarrow> string" where
  "pair_url cfg from_currency to_currency amount =
     api_base cfg @ ''/pair/'' @ from_currency @ ''/'' @ to_currency @ ''/'' @ amount"

definition quota_url :: "config \<Rightarrow> string" where
  "quota_url cfg = api_base cfg @ ''/quota''"

section \<open>Widgets\<close>

text \<open>
  The module's global widgets: the text of each entry and of each result label, the
  callbacks scheduled with \<open>after\<close> (delay in milliseconds and the label the callback
  empties), the URLs requested so far, and the rate windows opened so far (the text of
  each, \<open>None\<close> for a window whose constructor raised before it got its text).
  Calls into Tk itself (creating a widget, setting a label, emptying an entry, loading the
  icon) are taken to succeed.
\<close>

datatype label = Display_Result | Quota_Label | Exchange_Rate_Label

record gui =
  source_currency_entry :: string
  target_currency_entry :: string
  amount_entry :: string
  admin_entry :: string
  admin_password_entry :: string
  from_currency_entry :: string
  to_currency_entry :: string
  display_result :: string
  quota_label :: string
  exchange_rate_label :: string
  after_calls :: "(nat \<times> label) list"
  requests_sent :: "string list"
  rates_dialogs :: "string option list"

definition send :: "string \<Rightarrow> gui \<Rightarrow> gui" where
  "send url g = g\<lparr>requests_sent := requests_sent g @ [url]\<rparr>"

definition after :: "nat \<Rightarrow> label \<Rightarrow> gui \<Rightarrow> gui" where
  "after ms l g = g\<lparr>after_calls := after_calls g @ [(ms, l)]\<rparr>"

section \<open>The rate table window\<close>

definition format_rates :: "json \<Rightarrow> string" where
  \<comment> \<open>lines 78 to 80 and the \<open>strip\<close> of line 86\<close>
  "format_rates rates = str_strip (re_sub_comma (re_sub_punct (py_str rates)))"

definition ExchangeRatesDialog :: "config \<Rightarrow> network \<Rightarrow> string \<Rightarrow> gui \<Rightarrow> fault option \<times> gui" where
  "ExchangeRatesDialog cfg net from_currency g =
     (let url = latest_url cfg from_currency;
          g1 = send url g;
          failed = g1\<lparr>rates_dialogs := rates_dialogs g1 @ [None]\<rparr>
      in case requests_get net url of
           Inl e \<Rightarrow> (Some e, failed)
         | Inr r \<Rightarrow>
            (case response_json r of
               Inl e \<Rightarrow> (Some e, failed)
             | Inr exchange_rate \<Rightarrow>
                (case subscript exchange_rate ''conversion_rates'' of
                   Inl e \<Rightarrow> (Some e, failed)
                 | Inr rates \<Rightarrow>
                    (None, g1\<lparr>rates_dialogs := rates_dialogs g1 @ [Some (format_rates rates)]\<rparr>))))"

section \<open>The three commands\<close>

definition check_admin :: "config \<Rightarrow> gui \<Rightarrow> bool option" where
  \<comment> \<open>returns \<open>True\<close> or falls off the end, which returns \<open>None\<close>\<close>
  "check_admin cfg g =
     (let admin_username = admin_entry g;
          admin_password = admin_password_entry g
      in if Some admin_username = ADMIN cfg \<and> Some admin_password = PASSWORD cfg
         then Some True else None)"

fun truthy :: "bool option \<Rightarrow> bool" where
  "truthy None = False"
| "truthy (Some b) = b"

definition get_api_quota :: "config \<Rightarrow> network \<Rightarrow> gui \<Rightarrow> fault option \<times> gui" where
  "get_api_quota cfg net g =
     (if \<not> truthy (check_admin cfg g)
      then (None, after 3000 Quota_Label (g\<lparr>quota_label := ''Invalid admin credentials!''\<rparr>))
      else
        (let url = quota_url cfg; g1 = send url g
         in case requests_get net url of
              Inl e \<Rightarrow> (Some e, g1)
            | Inr r \<Rightarrow>
               (case response_json r of
                  Inl e \<Rightarrow> (Some e, g1)
                | Inr quota \<Rightarrow>
                   (case subscript quota ''requests_remaining'' of
                      Inl e \<Rightarrow> (Some e, g1)
                    | Inr n \<Rightarrow>
                       (None, after 3000 Quota_Label
                          (g1\<lparr>quota_label := ''Quota: '' @ py_str n @ '' requests remaining'',
                              admin_entry := [],
                              admin_password_entry := []\<rparr>))))))"

definition entry_upper :: "string \<Rightarrow> string option" where
  \<comment> \<open>\<open>e.get().upper() if e.get() else None\<close>\<close>
  "entry_upper s = (if s \<noteq> [] then Some (str_upper s) else None)"

fun falsy :: "string option \<Rightarrow> bool" where
  \<comment> \<open>\<open>not v\<close> for a \<open>str\<close> or \<open>None\<close>\<close>
  "falsy None = True"
| "falsy (Some s) = (s = [])"

definition get_exchange_rate :: "config \<Rightarrow> network \<Rightarrow> gui \<Rightarrow> fault option \<times> gui" where
  "get_exchange_rate cfg net g =
     (let from_currency = entry_upper (from_currency_entry g);
          to_currency = entry_upper (to_currency_entry g)
      in if falsy from_currency
         then (None, after 3000 Exchange_Rate_Label
                       (g\<lparr>exchange_rate_label := ''Please enter the source currency!''\<rparr>))
         else if \<not> falsy to_currency
         then
           (let url = latest_url cfg (format_opt from_currency); g1 = send url g
            in case requests_get net url of
                 Inl e \<Rightarrow> (Some e, g1)
               | Inr r \<Rightarrow>
                  (case response_json r of
                     Inl e \<Rightarrow> (Some e, g1)
                   | Inr j \<Rightarrow>
                      (case subscript j ''conversion_rates'' of
                         Inl e \<Rightarrow> (Some e, g1)
                       | Inr rates \<Rightarrow>
                          (case subscript rates (format_opt to_currency) of
                             Inl e \<Rightarrow> (Some e, g1)
                           | Inr exchange_rate \<Rightarrow>
                              (None, after 10000 Exchange_Rate_Label
                                 (g1\<lparr>exchange_rate_label :=
                                        ''Exchange rate for '' @ format_opt from_currency @ '' to ''
                                          @ format_opt to_currency @ '': '' @ py_str exchange_rate\<rparr>)
                                 \<lparr>from_currency_entry := [], to_currency_entry := []\<rparr>)))))
         else ExchangeRatesDialog cfg net (format_opt from_currency) g)"

definition convert_currency :: "config \<Rightarrow> network \<Rightarrow> gui \<Rightarrow> fault option \<times> gui" where
  "convert_currency cfg net g =
     (let from_currency = str_upper (source_currency_entry g);
          to_currency = str_upper (target_currency_entry g);
          amount = amount_entry g;
          url = pair_url cfg from_currency to_currency amount;
          g1 = send url g
      in case requests_get net url of
           Inl e \<Rightarrow> (Some e, g1)
         | Inr r \<Rightarrow>
            (case response_json r of
               Inl e \<Rightarrow> (Some e, g1)
             | Inr conversion \<Rightarrow>
                (case subscript conversion ''conversion_result'' of
                   Inl e \<Rightarrow> (Some e, g1)
                 | Inr res \<Rightarrow>
                    (None, (after 10000 Display_Result
                       (g1\<lparr>display_result :=
                              from_currency @ '' to '' @ to_currency @ '': '' @ py_str res\<rparr>))
                       \<lparr>source_currency_entry := [], target_currency_entry := [],
                        amount_entry := []\<rparr>))))"

section \<open>Fixtures\<close>

text \<open>
  The widgets as the module creates them (lines 233 to 313): empty entries, the result
  label empty, the two other labels with their captions.
\<close>

definition startup :: gui where
  "startup =
     \<lparr>source_currency_entry = [], target_currency_entry = [], amount_entry = [],
      admin_entry = [], admin_password_entry = [],
      from_currency_entry = [], to_currency_entry = [],
      display_result = [], quota_label = ''Quota:'', exchange_rate_label = ''Exchange rate:'',
      after_calls = [], requests_sent = [], rates_dialogs = []\<rparr>"

definition demo_config :: config where
  "demo_config = \<lparr>API_KEY = Some ''KEY'', ADMIN = Some ''admin'', PASSWORD = Some ''secret''\<rparr>"

definition convert_form :: gui where
  "convert_form =
     startup\<lparr>source_currency_entry := ''USD'', target_currency_entry := ''EUR'',
             amount_entry := ''100''\<rparr>"


definition rate_form :: gui where
  "rate_form = startup\<lparr>from_currency_entry := ''usd'', to_currency_entry := ''eur''\<rparr>"



definition quota_form :: gui where
  "quota_form = startup\<lparr>admin_entry := ''admin'', admin_password_entry := ''secret''\<rparr>"

definition demo_rates :: "(string \<times> json) list" where
  "demo_rates = [(''USD'', JInt 1), (''EUR'', JFloat ''0.85''), (''JPY'', JInt 147)]"

definition net_down :: network where
  \<comment> \<open>no response to any request\<close>
  "net_down url = None"

definition net_ok :: network where
  "net_ok url =
     (if url = ''https://v6.exchangerate-api.com/v6/KEY/pair/USD/EUR/100''
      then Some \<lparr>status_code = 200, body = Some (JObj [(''result'', JStr ''success''),
                   (''conversion_result'', JFloat ''85.3'')])\<rparr>
      else if url = ''https://v6.exchangerate-api.com/v6/KEY/latest/USD''
      then Some \<lparr>status_code = 200, body = Some (JObj [(''result'', JStr ''success''),
                   (''conversion_rates'', JObj demo_rates)])\<rparr>
      else if url = ''https://v6.exchangerate-api.com/v6/KEY/quota''
      then Some \<lparr>status_code = 200, body = Some (JObj [(''result'', JStr ''success''),
                   (''requests_remaining'', JInt 1432)])\<rparr>
      else None)"

definition net_404 :: network where
  \<comment> \<open>every request is answered with status 404 and a body that has the result\<close>
  "net_404 url = Some \<lparr>status_code = 404, body = Some (JObj [(''conversion_result'', JInt 5)])\<rparr>"

definition net_html :: network where
  \<comment> \<open>every request is answered with a body that is not JSON\<close>
  "net_html url = Some \<lparr>status_code = 502, body = None\<rparr>"

definition net_error :: network where
  \<comment> \<open>every request is answered with the API's error object\<close>
  "net_error url =
     Some \<lparr>status_code = 404,
           body = Some (JObj [(''result'', JStr ''error''), (''error-type'', JStr ''unsupported-code'')])\<rparr>"

definition env_no_password :: "string \<rightharpoonup> string" where
  \<comment> \<open>an environment in which \<open>PASSWORD\<close> is not set\<close>
  "env_no_password = [''API_KEY'' \<mapsto> ''KEY'', ''ADMIN'' \<mapsto> ''admin'']"

section \<open>Predicates on rate maps\<close>

definition plain_char :: "char \<Rightarrow> bool" where
  \<comment> \<open>a visible ASCII character other than quote, backslash, braces and comma\<close>
  "plain_char c =
     (let n = (of_char c :: nat) in 33 \<le> n \<and> n \<le> 126 \<and> n \<notin> {39, 44, 92, 123, 125})"

fun is_rate :: "json \<Rightarrow> bool" where
  \<comment> \<open>an \<open>int\<close>, or a \<open>float\<close> whose text is not empty and made of plain characters\<close>
  "is_rate (JInt i) = True"
| "is_rate (JFloat t) = (t \<noteq> [] \<and> list_all plain_char t)"
| "is_rate v = False"



definition spec_rate_lines :: "(string \<times> json) list \<Rightarrow> string" where
  \<comment> \<open>the specification's wording: one line \<open>CODE rate\<close> for each entry, in order\<close>
  "spec_rate_lines m = join [CHR 0x0A] (map (\<lambda>(k, v). k @ '' '' @ py_str v) m)"

section \<open>Basic facts\<close>

lemma upper_char_nonempty: "upper_char c \<noteq> []"
  by (simp add: upper_char_def Let_def)

lemma str_upper_Nil_iff: "str_upper s = [] \<longleftrightarrow> s = []"
  by (cases s) (simp_all add: str_upper_def upper_char_nonempty)




lemma falsy_entry_upper: "falsy (entry_upper s) \<longleftrightarrow> s = []"
  by (simp add: entry_upper_def str_upper_Nil_iff)

lemma format_entry_upper: "s \<noteq> [] \<Longrightarrow> format_opt (entry_upper s) = str_upper s"
  by (simp add: entry_upper_def)

lemma str_upper_USD: "str_upper ''USD'' = ''USD''" by code_simp
lemma str_upper_EUR: "str_upper ''EUR'' = ''EUR''" by code_simp

lemma str_upper_usd: "str_upper ''usd'' = ''USD''" by code_simp

lemma truthy_check_admin:
  "truthy (check_admin cfg g) \<longleftrightarrow>
     ADMIN cfg = Some (admin_entry g) \<and> PASSWORD cfg = Some (admin_password_entry g)"
  by (auto simp: check_admin_def)

section \<open>The credential check\<close>

text \<open>
  C3. \<open>check_admin\<close> returns \<open>True\<close> exactly when the submitted username is the configured
  one and the submitted password is the configured one, compared as they are; in every
  other case (so for any deviation in either field) it returns \<open>None\<close>, which is falsy
  and is not \<open>False\<close>.
\<close>

theorem check_admin_exact:
  "(check_admin cfg g = Some True \<longleftrightarrow>
      ADMIN cfg = Some (admin_entry g) \<and> PASSWORD cfg = Some (admin_password_entry g))
   \<and> (check_admin cfg g \<noteq> Some True \<longrightarrow>
        check_admin cfg g = None \<and> check_admin cfg g \<noteq> Some False
        \<and> \<not> truthy (check_admin cfg g))"
  by (auto simp: check_admin_def)

theorem check_admin_exact_witness:
  "check_admin demo_config (quota_form\<lparr>admin_entry := ''Admin''\<rparr>) \<noteq> Some True
   \<and> check_admin demo_config (quota_form\<lparr>admin_entry := ''Admin''\<rparr>) = None
   \<and> check_admin demo_config (quota_form\<lparr>admin_password_entry := ''secret ''\<rparr>) = None
   \<and> check_admin demo_config quota_form = Some True"
  using check_admin_exact [of demo_config "quota_form\<lparr>admin_entry := ''Admin''\<rparr>"]
    check_admin_exact [of demo_config "quota_form\<lparr>admin_password_entry := ''secret ''\<rparr>"]
    check_admin_exact [of demo_config quota_form]
  by (simp add: demo_config_def quota_form_def startup_def)

section \<open>The quota command\<close>

text \<open>
  C2. When the submitted pair is not the configured pair, the quota command sends no
  request and shows the invalid-credentials message (scheduling its removal after 3000 ms);
  a request is sent only when both submitted fields equal the configured secrets.
\<close>

theorem quota_requires_credentials:
  "(\<not> (ADMIN cfg = Some (admin_entry g) \<and> PASSWORD cfg = Some (admin_password_entry g)) \<longrightarrow>
      get_api_quota cfg net g =
        (None, g\<lparr>quota_label := ''Invalid admin credentials!'',
                 after_calls := after_calls g @ [(3000, Quota_Label)]\<rparr>)
      \<and> requests_sent (snd (get_api_quota cfg net g)) = requests_sent g)
   \<and> (requests_sent (snd (get_api_quota cfg net g)) \<noteq> requests_sent g \<longrightarrow>
        ADMIN cfg = Some (admin_entry g) \<and> PASSWORD cfg = Some (admin_password_entry g))"
  by (auto simp: get_api_quota_def truthy_check_admin after_def)

theorem quota_requires_credentials_witness:
  "get_api_quota demo_config net_ok (quota_form\<lparr>admin_password_entry := ''Secret''\<rparr>) =
     (None, quota_form\<lparr>admin_password_entry := ''Secret'',
              quota_label := ''Invalid admin credentials!'',
              after_calls := [(3000, Quota_Label)]\<rparr>)
   \<and> requests_sent (snd (get_api_quota demo_config net_ok quota_form)) \<noteq> requests_sent quota_form
   \<and> ADMIN demo_config = Some (admin_entry quota_form)"
proof -
  have sent:
    "requests_sent (snd (get_api_quota demo_config net_ok quota_form)) \<noteq> requests_sent quota_form"
    by code_simp
  show ?thesis
    using quota_requires_credentials
        [of demo_config "quota_form\<lparr>admin_password_entry := ''Secret''\<rparr>" net_ok]
      quota_requires_credentials [of demo_config quota_form net_ok] sent
    by (simp add: demo_config_def quota_form_def startup_def)
qed

section \<open>Requests sent by the commands\<close>

lemma convert_sends:
  "requests_sent (snd (convert_currency cfg net g)) =
     requests_sent g @ [pair_url cfg (str_upper (source_currency_entry g))
                          (str_upper (target_currency_entry g)) (amount_entry g)]"
  by (simp add: convert_currency_def Let_def send_def after_def split: sum.splits)



section \<open>Rate lookup without a source currency\<close>

text \<open>
  C5. When the source-currency entry of the rate form is empty, the rate command sends no
  request, opens no rate window, shows \<open>Please enter the source currency!\<close> and returns,
  whatever the target entry holds.
\<close>

theorem get_rate_missing_source:
  "from_currency_entry g = [] \<Longrightarrow>
     get_exchange_rate cfg net g =
       (None, g\<lparr>exchange_rate_label := ''Please enter the source currency!'',
                after_calls := after_calls g @ [(3000, Exchange_Rate_Label)]\<rparr>)
     \<and> requests_sent (snd (get_exchange_rate cfg net g)) = requests_sent g
     \<and> rates_dialogs (snd (get_exchange_rate cfg net g)) = rates_dialogs g"
  by (simp add: get_exchange_rate_def falsy_entry_upper after_def)

theorem get_rate_missing_source_witness:
  "from_currency_entry (rate_form\<lparr>from_currency_entry := []\<rparr>) = []
   \<and> to_currency_entry (rate_form\<lparr>from_currency_entry := []\<rparr>) = ''eur''
   \<and> exchange_rate_label (snd (get_exchange_rate demo_config net_ok (rate_form\<lparr>from_currency_entry := []\<rparr>)))
       = ''Please enter the source currency!''
   \<and> requests_sent (snd (get_exchange_rate demo_config net_ok (rate_form\<lparr>from_currency_entry := []\<rparr>))) = []
   \<and> exchange_rate_label (snd (get_exchange_rate demo_config net_ok startup))
       = ''Please enter the source currency!''"
proof -
  have h1: "from_currency_entry (rate_form\<lparr>from_currency_entry := []\<rparr>) = []" by simp
  have h2: "from_currency_entry startup = []" by (simp add: startup_def)
  show ?thesis
    using get_rate_missing_source [OF h1, of demo_config net_ok]
      get_rate_missing_source [OF h2, of demo_config net_ok]
    by (simp add: rate_form_def startup_def)
qed

section \<open>Secrets missing from the environment\<close>

text \<open>
  C9. Loading the configuration never fails. When \<open>ADMIN\<close> or \<open>PASSWORD\<close> is not set,
  the configured value is \<open>None\<close>, the credential check fails for every submitted pair
  of strings, and the quota command sends no request and reports invalid credentials.
\<close>

theorem missing_secret_blocks_quota:
  "env ''ADMIN'' = None \<or> env ''PASSWORD'' = None \<Longrightarrow>
     (ADMIN (load_config env) = None \<or> PASSWORD (load_config env) = None)
     \<and> check_admin (load_config env) g = None
     \<and> get_api_quota (load_config env) net g =
         (None, g\<lparr>quota_label := ''Invalid admin credentials!'',
                  after_calls := after_calls g @ [(3000, Quota_Label)]\<rparr>)
     \<and> requests_sent (snd (get_api_quota (load_config env) net g)) = requests_sent g"
  by (auto simp: load_config_def check_admin_def get_api_quota_def after_def)

theorem missing_secret_blocks_quota_witness:
  "check_admin (load_config env_no_password) quota_form = None
   \<and> requests_sent (snd (get_api_quota (load_config env_no_password) net_ok quota_form)) = []
   \<and> quota_label (snd (get_api_quota (load_config env_no_password) net_ok quota_form)) =
       ''Invalid admin credentials!''
   \<and> check_admin (load_config Map.empty) startup = None"
proof -
  have h1: "env_no_password ''ADMIN'' = None \<or> env_no_password ''PASSWORD'' = None"
    by (simp add: env_no_password_def)
  have h2: "(Map.empty :: string \<rightharpoonup> string) ''ADMIN'' = None
            \<or> (Map.empty :: string \<rightharpoonup> string) ''PASSWORD'' = None" by simp
  have empty: "requests_sent quota_form = []"
    by (simp add: quota_form_def startup_def)
  show ?thesis
    using missing_secret_blocks_quota [OF h1, of quota_form net_ok]
      missing_secret_blocks_quota [OF h2, of startup net_ok]
    by (simp add: empty)
qed

section \<open>The convert command\<close>



text \<open>
  C10. The convert command has no guard on its entries: in every state of the form it
  sends the pair request built from whatever the three entries hold, empty strings
  included, whereas the rate command sends nothing when its source entry is empty.
\<close>

theorem convert_never_guards:
  "requests_sent (snd (convert_currency cfg net g)) =
     requests_sent g @ [api_base cfg @ ''/pair/'' @ str_upper (source_currency_entry g) @ ''/''
        @ str_upper (target_currency_entry g) @ ''/'' @ amount_entry g]
   \<and> (source_currency_entry g = [] \<and> target_currency_entry g = [] \<and> amount_entry g = [] \<longrightarrow>
        requests_sent (snd (convert_currency cfg net g)) = requests_sent g @ [api_base cfg @ ''/pair///''])
   \<and> (from_currency_entry g = [] \<longrightarrow>
        requests_sent (snd (get_exchange_rate cfg net g)) = requests_sent g)"
  by (simp add: convert_sends pair_url_def str_upper_def get_exchange_rate_def falsy_entry_upper after_def)

theorem convert_never_guards_witness:
  "requests_sent (snd (convert_currency demo_config net_ok startup)) =
     [''https://v6.exchangerate-api.com/v6/KEY/pair///'']
   \<and> requests_sent (snd (get_exchange_rate demo_config net_ok startup)) = []"
proof -
  have f: "source_currency_entry startup = [] \<and> target_currency_entry startup = []
     \<and> amount_entry startup = [] \<and> from_currency_entry startup = [] \<and> requests_sent startup = []"
    by (simp add: startup_def)
  have b: "api_base demo_config = ''https://v6.exchangerate-api.com/v6/KEY''"
    by (simp add: api_base_def demo_config_def)
  show ?thesis
    using convert_never_guards [of demo_config net_ok startup] f
    by (simp add: b str_upper_def)
qed

section \<open>Currency codes in requests\<close>




section \<open>Faults in the commands\<close>

text \<open>
  No command looks at the status of a response: replacing every status by any other one
  changes nothing.
\<close>

lemma requests_get_status:
  "requests_get (\<lambda>u. map_option (\<lambda>r. r\<lparr>status_code := s\<rparr>) (net u)) url =
     map_sum id (\<lambda>r. r\<lparr>status_code := s\<rparr>) (requests_get net url)"
  by (simp add: requests_get_def split: option.splits)

lemma response_json_status: "response_json (r\<lparr>status_code := s\<rparr>) = response_json r"
  by (simp add: response_json_def)

lemma convert_status:
  "convert_currency cfg (\<lambda>u. map_option (\<lambda>r. r\<lparr>status_code := s\<rparr>) (net u)) g =
     convert_currency cfg net g"
  by (simp add: convert_currency_def Let_def requests_get_status response_json_status
      split: sum.splits)

lemma dialog_status:
  "ExchangeRatesDialog cfg (\<lambda>u. map_option (\<lambda>r. r\<lparr>status_code := s\<rparr>) (net u)) c g =
     ExchangeRatesDialog cfg net c g"
  by (simp add: ExchangeRatesDialog_def Let_def requests_get_status response_json_status
      split: sum.splits)

lemma get_rate_status:
  "get_exchange_rate cfg (\<lambda>u. map_option (\<lambda>r. r\<lparr>status_code := s\<rparr>) (net u)) g =
     get_exchange_rate cfg net g"
  by (simp add: get_exchange_rate_def Let_def requests_get_status response_json_status
      dialog_status split: sum.splits)

lemma quota_status:
  "get_api_quota cfg (\<lambda>u. map_option (\<lambda>r. r\<lparr>status_code := s\<rparr>) (net u)) g =
     get_api_quota cfg net g"
  by (simp add: get_api_quota_def Let_def requests_get_status response_json_status
      split: sum.splits)

text \<open>
  C7, as the code has it. In the convert command, the rate command with a target and the
  quota command after a successful credential check, a request that gets no response, a
  body that is not JSON, or a response object without the expected key (for the rate
  command also a rate table without the target code) raises a fault that nothing catches:
  the command ends there, having only sent its request, so no label, no entry and no
  scheduled callback changes. The status of the response is never read, so a status other
  than 200 is no fault by itself: it aborts the command only through its body.
\<close>

theorem http_faults_abort:
  "(let U = pair_url cfg (str_upper (source_currency_entry g))
              (str_upper (target_currency_entry g)) (amount_entry g);
        R = convert_currency cfg net g
    in (net U = None \<longrightarrow> R = (Some ConnectionError, send U g))
     \<and> (net U = Some resp \<and> body resp = None \<longrightarrow> R = (Some JSONDecodeError, send U g))
     \<and> (net U = Some resp \<and> body resp = Some (JObj m)
          \<and> map_of m ''conversion_result'' = None \<longrightarrow>
          R = (Some (KeyError ''conversion_result''), send U g)))
   \<and> (from_currency_entry g \<noteq> [] \<and> to_currency_entry g \<noteq> [] \<longrightarrow>
       (let U = latest_url cfg (str_upper (from_currency_entry g));
            R = get_exchange_rate cfg net g
        in (net U = None \<longrightarrow> R = (Some ConnectionError, send U g))
         \<and> (net U = Some resp \<and> body resp = None \<longrightarrow> R = (Some JSONDecodeError, send U g))
         \<and> (net U = Some resp \<and> body resp = Some (JObj m)
              \<and> map_of m ''conversion_rates'' = None \<longrightarrow>
              R = (Some (KeyError ''conversion_rates''), send U g))
         \<and> (net U = Some resp \<and> body resp = Some (JObj m)
              \<and> map_of m ''conversion_rates'' = Some (JObj rates)
              \<and> map_of rates (str_upper (to_currency_entry g)) = None \<longrightarrow>
              R = (Some (KeyError (str_upper (to_currency_entry g))), send U g))))
   \<and> (ADMIN cfg = Some (admin_entry g) \<and> PASSWORD cfg = Some (admin_password_entry g) \<longrightarrow>
       (let U = quota_url cfg; R = get_api_quota cfg net g
        in (net U = None \<longrightarrow> R = (Some ConnectionError, send U g))
         \<and> (net U = Some resp \<and> body resp = None \<longrightarrow> R = (Some JSONDecodeError, send U g))
         \<and> (net U = Some resp \<and> body resp = Some (JObj m)
              \<and> map_of m ''requests_remaining'' = None \<longrightarrow>
              R = (Some (KeyError ''requests_remaining''), send U g))))
   \<and> send U g = g\<lparr>requests_sent := requests_sent g @ [U]\<rparr>
   \<and> convert_currency cfg (\<lambda>u. map_option (\<lambda>r. r\<lparr>status_code := s\<rparr>) (net u)) g =
       convert_currency cfg net g
   \<and> get_exchange_rate cfg (\<lambda>u. map_option (\<lambda>r. r\<lparr>status_code := s\<rparr>) (net u)) g =
       get_exchange_rate cfg net g
   \<and> get_api_quota cfg (\<lambda>u. map_option (\<lambda>r. r\<lparr>status_code := s\<rparr>) (net u)) g =
       get_api_quota cfg net g"
proof -
  have c: "let U = pair_url cfg (str_upper (source_currency_entry g))
              (str_upper (target_currency_entry g)) (amount_entry g);
        R = convert_currency cfg net g
    in (net U = None \<longrightarrow> R = (Some ConnectionError, send U g))
     \<and> (net U = Some resp \<and> body resp = None \<longrightarrow> R = (Some JSONDecodeError, send U g))
     \<and> (net U = Some resp \<and> body resp = Some (JObj m)
          \<and> map_of m ''conversion_result'' = None \<longrightarrow>
          R = (Some (KeyError ''conversion_result''), send U g))"
    by (simp add: convert_currency_def Let_def requests_get_def response_json_def)
  have r: "from_currency_entry g \<noteq> [] \<and> to_currency_entry g \<noteq> [] \<longrightarrow>
       (let U = latest_url cfg (str_upper (from_currency_entry g));
            R = get_exchange_rate cfg net g
        in (net U = None \<longrightarrow> R = (Some ConnectionError, send U g))
         \<and> (net U = Some resp \<and> body resp = None \<longrightarrow> R = (Some JSONDecodeError, send U g))
         \<and> (net U = Some resp \<and> body resp = Some (JObj m)
              \<and> map_of m ''conversion_rates'' = None \<longrightarrow>
              R = (Some (KeyError ''conversion_rates''), send U g))
         \<and> (net U = Some resp \<and> body resp = Some (JObj m)
              \<and> map_of m ''conversion_rates'' = Some (JObj rates)
              \<and> map_of rates (str_upper (to_currency_entry g)) = None \<longrightarrow>
              R = (Some (KeyError (str_upper (to_currency_entry g))), send U g)))"
    by (simp add: get_exchange_rate_def Let_def falsy_entry_upper format_entry_upper
      requests_get_def response_json_def)
  have q: "ADMIN cfg = Some (admin_entry g) \<and> PASSWORD cfg = Some (admin_password_entry g) \<longrightarrow>
       (let U = quota_url cfg; R = get_api_quota cfg net g
        in (net U = None \<longrightarrow> R = (Some ConnectionError, send U g))
         \<and> (net U = Some resp \<and> body resp = None \<longrightarrow> R = (Some JSONDecodeError, send U g))
         \<and> (net U = Some resp \<and> body resp = Some (JObj m)
              \<and> map_of m ''requests_remaining'' = None \<longrightarrow>
              R = (Some (KeyError ''requests_remaining''), send U g)))"
    by (simp add: get_api_quota_def Let_def truthy_check_admin requests_get_def response_json_def)
  have s: "send U g = g\<lparr>requests_sent := requests_sent g @ [U]\<rparr>"
    by (simp add: send_def)
  from c r q s show ?thesis
    by (simp only: convert_status get_rate_status quota_status simp_thms)
qed

theorem http_faults_abort_witness:
  "convert_currency demo_config net_down convert_form =
     (Some ConnectionError,
      convert_form\<lparr>requests_sent := [''https://v6.exchangerate-api.com/v6/KEY/pair/USD/EUR/100'']\<rparr>)
   \<and> convert_currency demo_config net_error convert_form =
     (Some (KeyError ''conversion_result''),
      convert_form\<lparr>requests_sent := [''https://v6.exchangerate-api.com/v6/KEY/pair/USD/EUR/100'']\<rparr>)
   \<and> get_exchange_rate demo_config net_error rate_form =
     (Some (KeyError ''conversion_rates''),
      rate_form\<lparr>requests_sent := [''https://v6.exchangerate-api.com/v6/KEY/latest/USD'']\<rparr>)
   \<and> get_api_quota demo_config net_html quota_form =
     (Some JSONDecodeError,
      quota_form\<lparr>requests_sent := [''https://v6.exchangerate-api.com/v6/KEY/quota'']\<rparr>)"
proof -
  have b: "api_base demo_config = ''https://v6.exchangerate-api.com/v6/KEY''"
    by (simp add: api_base_def demo_config_def)
  have f: "source_currency_entry convert_form = ''USD'' \<and> target_currency_entry convert_form = ''EUR''
      \<and> amount_entry convert_form = ''100'' \<and> requests_sent convert_form = []"
    by (simp add: convert_form_def startup_def)
  have r: "from_currency_entry rate_form = ''usd'' \<and> to_currency_entry rate_form = ''eur''
      \<and> requests_sent rate_form = []"
    by (simp add: rate_form_def startup_def)
  have q: "ADMIN demo_config = Some (admin_entry quota_form)
      \<and> PASSWORD demo_config = Some (admin_password_entry quota_form)
      \<and> requests_sent quota_form = []"
    by (simp add: demo_config_def quota_form_def startup_def)
  have e: "map_of [(''result'', JStr ''error''), (''error-type'', JStr ''unsupported-code'')]
             ''conversion_result'' = None
      \<and> map_of [(''result'', JStr ''error''), (''error-type'', JStr ''unsupported-code'')]
             ''conversion_rates'' = None"
    by simp
  have c1: "convert_currency demo_config net_down convert_form =
     (Some ConnectionError,
      convert_form\<lparr>requests_sent := [''https://v6.exchangerate-api.com/v6/KEY/pair/USD/EUR/100'']\<rparr>)"
    using http_faults_abort [of demo_config convert_form net_down] f
    by (simp add: Let_def net_down_def send_def pair_url_def b str_upper_USD str_upper_EUR)
  have c2: "convert_currency demo_config net_error convert_form =
     (Some (KeyError ''conversion_result''),
      convert_form\<lparr>requests_sent := [''https://v6.exchangerate-api.com/v6/KEY/pair/USD/EUR/100'']\<rparr>)"
    using http_faults_abort [of demo_config convert_form net_error
        "\<lparr>status_code = 404, body = Some (JObj [(''result'', JStr ''error''),
            (''error-type'', JStr ''unsupported-code'')])\<rparr>"
        "[(''result'', JStr ''error''), (''error-type'', JStr ''unsupported-code'')]"] f e
    by (simp add: Let_def net_error_def send_def pair_url_def b str_upper_USD str_upper_EUR)
  have c3: "get_exchange_rate demo_config net_error rate_form =
     (Some (KeyError ''conversion_rates''),
      rate_form\<lparr>requests_sent := [''https://v6.exchangerate-api.com/v6/KEY/latest/USD'']\<rparr>)"
    using http_faults_abort [of demo_config rate_form net_error
        "\<lparr>status_code = 404, body = Some (JObj [(''result'', JStr ''error''),
            (''error-type'', JStr ''unsupported-code'')])\<rparr>"
        "[(''result'', JStr ''error''), (''error-type'', JStr ''unsupported-code'')]"] r e
    by (simp add: Let_def net_error_def send_def latest_url_def b str_upper_usd)
  have c4: "get_api_quota demo_config net_html quota_form =
     (Some JSONDecodeError,
      quota_form\<lparr>requests_sent := [''https://v6.exchangerate-api.com/v6/KEY/quota'']\<rparr>)"
    using http_faults_abort [of demo_config quota_form net_html
        "\<lparr>status_code = 502, body = None\<rparr>"] q
    by (simp add: Let_def net_html_def send_def quota_url_def b)
  show ?thesis using c1 c2 c3 c4 by simp
qed

text \<open>
  The claim as stated fails for a status other than 200: a 404 response whose body holds
  \<open>conversion_result\<close> is displayed like any other.
\<close>

theorem non_200_status_is_ignored:
  "net_404 (pair_url demo_config ''USD'' ''EUR'' ''100'') =
     Some \<lparr>status_code = 404, body = Some (JObj [(''conversion_result'', JInt 5)])\<rparr>
   \<and> convert_currency demo_config net_404 convert_form =
     (None,
      convert_form\<lparr>source_currency_entry := [], target_currency_entry := [], amount_entry := [],
        display_result := ''USD to EUR: 5'',
        after_calls := [(10000, Display_Result)],
        requests_sent := [''https://v6.exchangerate-api.com/v6/KEY/pair/USD/EUR/100'']\<rparr>)"
  by code_simp

section \<open>Clearing the credential entries\<close>

text \<open>
  C6, as the code has it. After a successful credential check the quota request is sent.
  The command completes exactly when the request gets a response whose body is JSON and
  holds \<open>requests_remaining\<close>, and then both credential entries are emptied. When the
  fetch, the parsing or the lookup fails, the command ends with the fault and both
  credential entries, the quota label and the scheduled callbacks are as before.
\<close>

theorem quota_fields_cleared_iff_fetched:
  assumes "ADMIN cfg = Some (admin_entry g)" and "PASSWORD cfg = Some (admin_password_entry g)"
  shows "requests_sent (snd (get_api_quota cfg net g)) = requests_sent g @ [quota_url cfg]
     \<and> (fst (get_api_quota cfg net g) = None \<longleftrightarrow>
          (\<exists>resp q n. net (quota_url cfg) = Some resp \<and> body resp = Some q
             \<and> subscript q ''requests_remaining'' = Inr n))
     \<and> (fst (get_api_quota cfg net g) = None \<longrightarrow>
          admin_entry (snd (get_api_quota cfg net g)) = []
          \<and> admin_password_entry (snd (get_api_quota cfg net g)) = [])
     \<and> (fst (get_api_quota cfg net g) \<noteq> None \<longrightarrow>
          admin_entry (snd (get_api_quota cfg net g)) = admin_entry g
          \<and> admin_password_entry (snd (get_api_quota cfg net g)) = admin_password_entry g
          \<and> quota_label (snd (get_api_quota cfg net g)) = quota_label g
          \<and> after_calls (snd (get_api_quota cfg net g)) = after_calls g)"
proof -
  have t: "truthy (check_admin cfg g)"
    using assms by (simp add: truthy_check_admin)
  show ?thesis
  proof (cases "net (quota_url cfg)")
    case None
    with t show ?thesis
      by (simp add: get_api_quota_def Let_def requests_get_def send_def)
  next
    case (Some resp)
    show ?thesis
    proof (cases "body resp")
      case None
      with Some t show ?thesis
        by (simp add: get_api_quota_def Let_def requests_get_def response_json_def send_def)
    next
      case (Some q)
      note body = this
      show ?thesis
      proof (cases "subscript q ''requests_remaining''")
        case (Inl e)
        with \<open>net (quota_url cfg) = Some resp\<close> body t show ?thesis
          by (simp add: get_api_quota_def Let_def requests_get_def response_json_def send_def)
      next
        case (Inr n)
        with \<open>net (quota_url cfg) = Some resp\<close> body t show ?thesis
          by (simp add: get_api_quota_def Let_def requests_get_def response_json_def send_def
              after_def)
      qed
    qed
  qed
qed

theorem quota_fields_cleared_iff_fetched_witness:
  "fst (get_api_quota demo_config net_ok quota_form) = None
   \<and> admin_entry (snd (get_api_quota demo_config net_ok quota_form)) = []
   \<and> admin_password_entry (snd (get_api_quota demo_config net_ok quota_form)) = []
   \<and> fst (get_api_quota demo_config net_html quota_form) \<noteq> None
   \<and> admin_entry (snd (get_api_quota demo_config net_html quota_form)) = ''admin''
   \<and> admin_password_entry (snd (get_api_quota demo_config net_html quota_form)) = ''secret''"
proof -
  have a: "ADMIN demo_config = Some (admin_entry quota_form)"
    by (simp add: demo_config_def quota_form_def startup_def)
  have p: "PASSWORD demo_config = Some (admin_password_entry quota_form)"
    by (simp add: demo_config_def quota_form_def startup_def)
  have ok: "fst (get_api_quota demo_config net_ok quota_form) = None"
    by code_simp
  have bad: "fst (get_api_quota demo_config net_html quota_form) \<noteq> None"
    by code_simp
  have e: "admin_entry quota_form = ''admin'' \<and> admin_password_entry quota_form = ''secret''"
    by (simp add: quota_form_def startup_def)
  show ?thesis
    using quota_fields_cleared_iff_fetched [OF a p, of net_ok]
      quota_fields_cleared_iff_fetched [OF a p, of net_html] ok bad e
    by simp
qed

text \<open>
  The claim as stated fails when the request gets no response: the credentials are
  accepted, the request is sent, and both entries keep their text.
\<close>

theorem quota_fields_kept_on_fault:
  "truthy (check_admin demo_config quota_form)
   \<and> get_api_quota demo_config net_down quota_form =
       (Some ConnectionError,
        quota_form\<lparr>requests_sent := [''https://v6.exchangerate-api.com/v6/KEY/quota'']\<rparr>)
   \<and> admin_entry (snd (get_api_quota demo_config net_down quota_form)) = ''admin''
   \<and> admin_password_entry (snd (get_api_quota demo_config net_down quota_form)) = ''secret''"
  by code_simp

section \<open>The rate table text\<close>

lemma plain_char_facts:
  assumes "plain_char c"
  shows "c \<noteq> CHR ''{''" "c \<noteq> CHR ''}''" "c \<noteq> CHR 0x27" "c \<noteq> CHR '',''" "c \<noteq> CHR 0x5C"
    "c \<noteq> CHR 0x09" "c \<noteq> CHR 0x0A" "c \<noteq> CHR 0x0D" "printable c" "\<not> isspace c"
  using assms by (auto simp: plain_char_def printable_def isspace_def Let_def)

lemma repr_char_plain: "plain_char c \<Longrightarrow> repr_char (CHR 0x27) c = [c]"
  by (simp add: repr_char_def plain_char_facts)

lemma concat_repr_char_plain:
  "list_all plain_char k \<Longrightarrow> concat (map (repr_char (CHR 0x27)) k) = k"
  by (induction k) (simp_all add: repr_char_plain)

lemma repr_str_plain:
  assumes "list_all plain_char k"
  shows "repr_str k = CHR 0x27 # k @ [CHR 0x27]"
proof -
  have "CHR 0x27 \<notin> set k"
    using assms plain_char_facts(3) by (auto simp: list_all_iff)
  then show ?thesis
    using assms by (simp add: repr_str_def Let_def concat_repr_char_plain)
qed

lemma plain_digit: "d < 10 \<Longrightarrow> plain_char (digit_char d)"
  by (simp add: plain_char_def digit_char_def Let_def)

lemma str_nat_plain: "list_all plain_char (str_nat n) \<and> str_nat n \<noteq> []"
proof (induction n rule: str_nat.induct)
  case (1 n)
  show ?case
  proof (cases "n < 10")
    case True
    then show ?thesis by (simp add: str_nat.simps [of n] plain_digit)
  next
    case False
    with 1 show ?thesis by (simp add: str_nat.simps [of n] plain_digit)
  qed
qed

lemma str_int_plain: "list_all plain_char (str_int i) \<and> str_int i \<noteq> []"
  by (simp add: str_int_def str_nat_plain plain_char_def)

lemma is_rate_text:
  "is_rate v \<Longrightarrow> py_repr v = py_str v \<and> list_all plain_char (py_str v) \<and> py_str v \<noteq> []"
  by (cases v) (simp_all add: str_int_plain)

lemma filter_plain:
  "list_all plain_char s \<Longrightarrow>
     filter (\<lambda>c. c \<noteq> CHR ''{'' \<and> c \<noteq> CHR ''}'' \<and> c \<noteq> CHR 0x27) s = s"
  by (induction s) (simp_all add: plain_char_facts)

lemma map_plain:
  "list_all plain_char s \<Longrightarrow> map (\<lambda>c. if c = CHR '','' then CHR 0x0A else c) s = s"
  by (induction s) (simp_all add: plain_char_facts)

lemma clean_append3:
  "re_sub_comma (re_sub_punct (a @ b @ c)) =
     re_sub_comma (re_sub_punct a) @ re_sub_comma (re_sub_punct b) @ re_sub_comma (re_sub_punct c)"
  by (simp add: re_sub_punct_def re_sub_comma_def)

lemma clean_item:
  assumes "list_all plain_char k" and "is_rate v"
  shows "re_sub_comma (re_sub_punct (repr_str k @ '': '' @ py_repr v)) = k @ '': '' @ py_str v"
  using assms is_rate_text [of v]
  by (simp add: re_sub_punct_def re_sub_comma_def repr_str_plain filter_plain map_plain)

lemma clean_items:
  assumes "\<forall>(k, v) \<in> set m. list_all plain_char k \<and> is_rate v"
  shows "re_sub_comma (re_sub_punct (join '', '' (repr_items m))) =
     join (CHR 0x0A # '' '') (map (\<lambda>(k, v). k @ '': '' @ py_str v) m)"
  using assms
proof (induction m)
  case Nil
  then show ?case by (simp add: re_sub_comma_def re_sub_punct_def)
next
  case (Cons a m)
  obtain k v where a: "a = (k, v)" by (cases a)
  have item: "re_sub_comma (re_sub_punct (repr_str k @ '': '' @ py_repr v)) = k @ '': '' @ py_str v"
    using Cons.prems a by (intro clean_item) auto
  show ?case
  proof (cases m)
    case Nil
    then show ?thesis using item a by simp
  next
    case (Cons b m')
    have sep: "re_sub_comma (re_sub_punct '', '') = CHR 0x0A # '' ''"
      by (simp add: re_sub_comma_def re_sub_punct_def)
    have ih: "re_sub_comma (re_sub_punct (join '', '' (repr_items m))) =
       join (CHR 0x0A # '' '') (map (\<lambda>(k, v). k @ '': '' @ py_str v) m)"
      using Cons.IH Cons.prems by simp
    have "join '', '' (repr_items (a # m)) =
        (repr_str k @ '': '' @ py_repr v) @ '', '' @ join '', '' (repr_items m)"
      using a Cons by (cases b) simp
    then have "re_sub_comma (re_sub_punct (join '', '' (repr_items (a # m)))) =
        re_sub_comma (re_sub_punct (repr_str k @ '': '' @ py_repr v))
          @ re_sub_comma (re_sub_punct '', '')
          @ re_sub_comma (re_sub_punct (join '', '' (repr_items m)))"
      by (simp only: clean_append3)
    also have "\<dots> = (k @ '': '' @ py_str v) @ (CHR 0x0A # '' '')
          @ join (CHR 0x0A # '' '') (map (\<lambda>(k, v). k @ '': '' @ py_str v) m)"
      by (simp only: item sep ih)
    also have "\<dots> = join (CHR 0x0A # '' '') (map (\<lambda>(k, v). k @ '': '' @ py_str v) (a # m))"
      using a Cons by (cases b) simp
    finally show ?thesis .
  qed
qed

lemma str_strip_id:
  assumes "s = [] \<or> (\<not> isspace (hd s) \<and> \<not> isspace (last s))"
  shows "str_strip s = s"
proof (cases s)
  case Nil
  then show ?thesis by (simp add: str_strip_def)
next
  case (Cons c cs)
  with assms have h: "\<not> isspace (hd s)" and l: "\<not> isspace (last s)" by simp_all
  have front: "dropWhile isspace s = s"
    using h by (simp add: dropWhile_eq_self_iff)
  have "dropWhile isspace (rev s) = rev s"
    using l by (simp add: dropWhile_eq_self_iff hd_rev)
  with front show ?thesis by (simp add: str_strip_def)
qed

lemma join_ends:
  assumes "xs \<noteq> []" and "\<forall>x \<in> set xs. x \<noteq> [] \<and> \<not> P (hd x) \<and> \<not> P (last x)"
  shows "join sep xs \<noteq> [] \<and> \<not> P (hd (join sep xs)) \<and> \<not> P (last (join sep xs))"
  using assms
proof (induction sep xs rule: join.induct)
  case (1 sep)
  then show ?case by simp
next
  case (2 sep x)
  then show ?case by simp
next
  case (3 sep x y ys)
  then have "join sep (y # ys) \<noteq> [] \<and> \<not> P (last (join sep (y # ys)))" by simp
  moreover have "x \<noteq> [] \<and> \<not> P (hd x)" using 3 by simp
  ultimately show ?case by simp
qed

lemma rate_line_ends:
  assumes "list_all plain_char k" and "is_rate v"
  shows "k @ '': '' @ py_str v \<noteq> [] \<and> \<not> isspace (hd (k @ '': '' @ py_str v))
     \<and> \<not> isspace (last (k @ '': '' @ py_str v))"
proof -
  have v: "list_all plain_char (py_str v)" "py_str v \<noteq> []"
    using assms(2) is_rate_text by simp_all
  then have "plain_char (last (py_str v))"
    by (simp add: list_all_iff)
  then have l: "\<not> isspace (last (py_str v))" by (rule plain_char_facts)
  have h: "\<not> isspace (hd (k @ '': '' @ py_str v))"
  proof (cases k)
    case Nil
    then show ?thesis by (simp add: isspace_def)
  next
    case (Cons c cs)
    with assms(1) have "plain_char c" by simp
    then have "\<not> isspace c" by (rule plain_char_facts)
    with Cons show ?thesis by simp
  qed
  from h l v show ?thesis by simp
qed

lemma format_rates_plain:
  assumes "\<forall>(k, v) \<in> set m. list_all plain_char k \<and> is_rate v"
  shows "format_rates (JObj m) =
     join (CHR 0x0A # '' '') (map (\<lambda>(k, v). k @ '': '' @ py_str v) m)"
proof -
  let ?lines = "map (\<lambda>(k, v). k @ '': '' @ py_str v) m"
  have brace: "re_sub_comma (re_sub_punct ''{'') = []" "re_sub_comma (re_sub_punct ''}'') = []"
    by (simp_all add: re_sub_comma_def re_sub_punct_def)
  have "re_sub_comma (re_sub_punct (py_str (JObj m))) =
      re_sub_comma (re_sub_punct ''{'') @ re_sub_comma (re_sub_punct (join '', '' (repr_items m)))
        @ re_sub_comma (re_sub_punct ''}'')"
    by (simp only: py_str.simps py_repr.simps clean_append3)
  then have cleaned: "re_sub_comma (re_sub_punct (py_str (JObj m))) = join (CHR 0x0A # '' '') ?lines"
    by (simp only: brace clean_items [OF assms] append_Nil append_Nil2)
  have "join (CHR 0x0A # '' '') ?lines = []
      \<or> (\<not> isspace (hd (join (CHR 0x0A # '' '') ?lines))
          \<and> \<not> isspace (last (join (CHR 0x0A # '' '') ?lines)))"
  proof (cases m)
    case Nil
    then show ?thesis by simp
  next
    case (Cons a m')
    then have ne: "?lines \<noteq> []" by simp
    have "\<forall>x \<in> set ?lines. x \<noteq> [] \<and> \<not> isspace (hd x) \<and> \<not> isspace (last x)"
      using assms rate_line_ends by fastforce
    from join_ends [OF ne this] show ?thesis by simp
  qed
  then have "str_strip (join (CHR 0x0A # '' '') ?lines) = join (CHR 0x0A # '' '') ?lines"
    by (rule str_strip_id)
  with cleaned show ?thesis by (simp add: format_rates_def)
qed

lemma set_str_strip: "set (str_strip s) \<subseteq> set s"
proof
  fix c assume "c \<in> set (str_strip s)"
  then have "c \<in> set (dropWhile isspace (rev (dropWhile isspace s)))"
    by (simp add: str_strip_def)
  then have "c \<in> set (rev (dropWhile isspace s))" by (rule set_dropWhileD)
  then have "c \<in> set (dropWhile isspace s)" by simp
  then show "c \<in> set s" by (rule set_dropWhileD)
qed

lemma format_rates_no_punct:
  "\<forall>c \<in> set (format_rates j). c \<notin> {CHR ''{'', CHR ''}'', CHR 0x27, CHR '',''}"
proof
  fix c assume "c \<in> set (format_rates j)"
  then have "c \<in> set (re_sub_comma (re_sub_punct (py_str j)))"
    using set_str_strip [of "re_sub_comma (re_sub_punct (py_str j))"] by (auto simp: format_rates_def)
  then show "c \<notin> {CHR ''{'', CHR ''}'', CHR 0x27, CHR '',''}"
    by (auto simp: re_sub_comma_def re_sub_punct_def split: if_splits)
qed

text \<open>
  C4, as the code has it. The text shown for a rate table never holds a brace, a single
  quote or a comma. For a table whose codes are made of visible ASCII characters other
  than quote, backslash, braces and comma, and whose rates are numbers, the text is the
  table's entries in their order, one per line and unsorted; a line reads
  \<open>CODE: rate\<close>, the colon of the map's text being kept, and every line after the first
  starts with the space that followed the comma.
\<close>

theorem format_rates_lines:
  "(\<forall>c \<in> set (format_rates j). c \<notin> {CHR ''{'', CHR ''}'', CHR 0x27, CHR '',''})
   \<and> ((\<forall>(k, v) \<in> set m. list_all plain_char k \<and> is_rate v) \<longrightarrow>
        format_rates (JObj m) =
          join (CHR 0x0A # '' '') (map (\<lambda>(k, v). k @ '': '' @ py_str v) m))"
  by (intro conjI impI format_rates_no_punct format_rates_plain)

theorem format_rates_lines_witness:
  "format_rates (JObj demo_rates) =
     ''USD: 1'' @ [CHR 0x0A] @ '' EUR: 0.85'' @ [CHR 0x0A] @ '' JPY: 147''
   \<and> CHR '','' \<notin> set (format_rates (JObj demo_rates))"
proof -
  have h: "\<forall>(k, v) \<in> set demo_rates. list_all plain_char k \<and> is_rate v"
    by code_simp
  have j: "join (CHR 0x0A # '' '') (map (\<lambda>(k, v). k @ '': '' @ py_str v) demo_rates) =
     ''USD: 1'' @ [CHR 0x0A] @ '' EUR: 0.85'' @ [CHR 0x0A] @ '' JPY: 147''"
    by code_simp
  show ?thesis
    using format_rates_lines [of "JObj demo_rates" demo_rates] h j by simp
qed

text \<open>
  The claim as stated fails on the form of the lines: they are not \<open>CODE rate\<close>.
\<close>

theorem format_rates_keeps_colon:
  "format_rates (JObj demo_rates) =
     ''USD: 1'' @ [CHR 0x0A] @ '' EUR: 0.85'' @ [CHR 0x0A] @ '' JPY: 147''
   \<and> spec_rate_lines demo_rates = ''USD 1'' @ [CHR 0x0A] @ ''EUR 0.85'' @ [CHR 0x0A] @ ''JPY 147''
   \<and> format_rates (JObj demo_rates) \<noteq> spec_rate_lines demo_rates"
  by code_simp

end
